theory Spec2Isabelle
  imports Complex_Main "HOL-Library.Char_ord" "HOL-Library.List_Lexorder"
begin

section \<open>Geometries and the geometry library\<close>

text \<open>
  Coordinates are the floating-point pairs \<open>(x, y) = (longitude, latitude)\<close> of the
  map extract. The service only copies them; every computation on them (centroid, union,
  containment) is done by the geometry library, which is a parameter of the model.
\<close>

type_synonym coord = "real \<times> real"

record polygon =
  exterior :: "coord list"
  interiors :: "coord list list"

datatype geom =
    Point coord
  | LineString "coord list"
  | LinearRing "coord list"
  | Polygon polygon
  | MultiPoint "coord list"
  | MultiLineString "coord list list"
  | MultiPolygon "polygon list"
  | GeometryCollection "geom list"

fun geom_type :: "geom \<Rightarrow> string" where
  "geom_type (Point _) = ''Point''"
| "geom_type (LineString _) = ''LineString''"
| "geom_type (LinearRing _) = ''LinearRing''"
| "geom_type (Polygon _) = ''Polygon''"
| "geom_type (MultiPoint _) = ''MultiPoint''"
| "geom_type (MultiLineString _) = ''MultiLineString''"
| "geom_type (MultiPolygon _) = ''MultiPolygon''"
| "geom_type (GeometryCollection _) = ''GeometryCollection''"

text \<open>
  The operations of the geometry library that \<open>find_room\<close> calls: the \<open>centroid\<close>
  property of a geometry, \<open>unary_union\<close> of a geometry column, and the predicate
  \<open>within\<close> of the spatial join (here \<open>geom_within\<close>).
\<close>

record shapely =
  centroid :: "geom \<Rightarrow> coord"
  unary_union :: "geom list \<Rightarrow> geom"
  geom_within :: "geom \<Rightarrow> geom \<Rightarrow> bool"

section \<open>Rows of the map data source\<close>

text \<open>
  A cell of a tag column: text, an integer, or one of the two markers of a missing value.
  \<open>py_str\<close> is Python's \<open>str\<close> on a cell.
\<close>

datatype cell = CStr string | CInt int | CNone | CNaN

fun digits :: "nat \<Rightarrow> string" where
  "digits n = (if n < 10 then [char_of (48 + n)] else digits (n div 10) @ [char_of (48 + n mod 10)])"

declare digits.simps [simp del]

fun py_str :: "cell \<Rightarrow> string" where
  "py_str (CStr s) = s"
| "py_str (CInt i) = (if i < 0 then CHR ''-'' # digits (nat (- i)) else digits (nat i))"
| "py_str CNone = ''None''"
| "py_str CNaN = ''nan''"

text \<open>
  A row of a frame returned by the map data source: its geometry, its \<open>id\<close>, and the
  remaining columns by name. \<open>row_get\<close> is \<open>row.get(key)\<close>, which is \<open>None\<close> for a
  column the frame does not have.
\<close>

record row =
  geometry :: geom
  row_id :: int
  columns :: "string \<rightharpoonup> cell"

definition row_get :: "'a row_scheme \<Rightarrow> string \<Rightarrow> cell" where
  "row_get r k = (case columns r k of None \<Rightarrow> CNone | Some c \<Rightarrow> c)"

text \<open>The frame \<open>rooms\<close> after the column \<open>centroid\<close> has been added to it.\<close>

record room_row = row +
  centroid_col :: geom

text \<open>
  The keyword arguments of \<open>get_data_by_custom_criteria\<close> that the service passes, and
  the two queries of the parser object. Both are opaque. A query answers with a frame,
  \<open>Some rows\<close> with the rows in the frame's order (the frame is \<open>empty\<close> when the list
  is), or with Python's \<open>None\<close>, which is what the parser library gives when nothing
  in the extract matches.
\<close>

record criteria =
  custom_filter :: "(string \<times> string list) list"
  extra_attributes :: "string list option"
  filter_type :: string
  keep_nodes :: bool
  keep_ways :: bool

record osm =
  get_buildings :: "(string \<times> string list) list \<Rightarrow> row list option"
  get_data_by_custom_criteria :: "criteria \<Rightarrow> row list option"

section \<open>Text\<close>

text \<open>
  \<open>upper\<close> is \<open>str.upper\<close> on ASCII text: the letters \<open>a\<close> to \<open>z\<close> move to \<open>A\<close> to
  \<open>Z\<close>, every other character stays. The texts of the model are ASCII; on a letter
  outside ASCII \<open>str.upper\<close> follows the Unicode tables, which the model does not hold.
\<close>

definition upper_char :: "char \<Rightarrow> char" where
  "upper_char c = (let n = (of_char c :: nat) in if 97 \<le> n \<and> n \<le> 122 then char_of (n - 32) else c)"

definition upper :: "string \<Rightarrow> string" where
  "upper s = map upper_char s"

definition quoted :: "string \<Rightarrow> string" where
  "quoted s = CHR 0x27 # s @ [CHR 0x27]"

section \<open>Exceptions\<close>

text \<open>
  The outcome of an expression that can raise: the exception, as the text \<open>str(e)\<close>,
  or the value. \<open>attribute_error\<close> is the text of the AttributeError for a missing
  attribute of a value of the named type; a query that answered \<open>None\<close> raises it as
  soon as the result is used as a frame.
\<close>

datatype 'a outcome = Raised string | Returned 'a

definition attribute_error :: "string \<Rightarrow> string \<Rightarrow> string" where
  "attribute_error type_name attribute =
     quoted type_name @ '' object has no attribute '' @ quoted attribute"

section \<open>The room resolution pipeline\<close>

record node =
  node_latitude :: real
  node_longitude :: real

record tags =
  name :: cell
  ref :: cell
  level :: cell

record room_match =
  latitude :: real
  longitude :: real
  osm_id :: int
  tags :: tags
  nodes :: "node list"

text \<open>The four messages of the \<open>error\<close> dictionaries that \<open>find_room\<close> returns.\<close>

definition building_not_found :: "string \<Rightarrow> string" where
  "building_not_found building_name = ''Building '' @ quoted building_name @ '' not found''"

definition room_not_in_dataset :: "string \<Rightarrow> string" where
  "room_not_in_dataset room_identifier = ''Room '' @ quoted room_identifier @ '' not found in dataset''"

definition room_not_in_building :: "string \<Rightarrow> string \<Rightarrow> string" where
  "room_not_in_building room_identifier building_name =
     ''Room '' @ quoted room_identifier @ '' not found in '' @ building_name"

definition exact_match_not_found :: "string \<Rightarrow> string" where
  "exact_match_not_found room_identifier = ''Exact match for '' @ quoted room_identifier @ '' not found''"

text \<open>The query for the building and the query for the room candidates.\<close>

definition building_query :: "string \<Rightarrow> (string \<times> string list) list" where
  "building_query building_name = [(''name'', [building_name])]"

definition room_criteria :: "string \<Rightarrow> criteria" where
  "room_criteria room_identifier =
     \<lparr>custom_filter = [(''indoor'', [''room'']), (''ref'', [room_identifier]), (''name'', [room_identifier])],
      extra_attributes = Some [''level''],
      filter_type = ''keep'',
      keep_nodes = True,
      keep_ways = True\<rparr>"

text \<open>
  The column \<open>centroid\<close>: \<open>g.centroid if g.geom_type in ["Polygon", "MultiPolygon"] else g\<close>.
\<close>

definition representative :: "shapely \<Rightarrow> geom \<Rightarrow> geom" where
  "representative geo g =
     (if geom_type g \<in> set [''Polygon'', ''MultiPolygon''] then Point (centroid geo g) else g)"

definition add_centroid :: "shapely \<Rightarrow> row \<Rightarrow> room_row" where
  "add_centroid geo r = row.extend r \<lparr>centroid_col = representative geo (geometry r)\<rparr>"

text \<open>
  The spatial join \<open>sjoin(centroids, building_gdf, predicate="within", how="inner")\<close>.
  The active geometry of the left frame is the column \<open>centroid\<close>, the right frame has
  the one row \<open>building_geom\<close>: the join keeps the left rows whose \<open>centroid\<close> is within
  that geometry, in the order of the left frame.
\<close>

definition sjoin_within :: "shapely \<Rightarrow> room_row list \<Rightarrow> geom \<Rightarrow> room_row list" where
  "sjoin_within geo centroids building_geom =
     filter (\<lambda>r. geom_within geo (centroid_col r) building_geom) centroids"

text \<open>
  The boundary coordinates of a joined row. \<open>row.geometry\<close> is the column named
  \<open>geometry\<close>, the feature's own geometry, not the \<open>centroid\<close> column.
\<close>

definition room_nodes :: "geom \<Rightarrow> coord list" where
  "room_nodes g =
     (if geom_type g = ''Polygon'' then (case g of Polygon p \<Rightarrow> exterior p | _ \<Rightarrow> [])
      else if geom_type g = ''MultiPolygon''
        then (case g of MultiPolygon ps \<Rightarrow> foldl (\<lambda>acc poly. acc @ exterior poly) [] ps | _ \<Rightarrow> [])
      else [])"

definition to_node :: "coord \<Rightarrow> node" where
  "to_node coord = \<lparr>node_latitude = snd coord, node_longitude = fst coord\<rparr>"

definition format_row :: "shapely \<Rightarrow> room_row \<Rightarrow> room_match" where
  "format_row geo r =
     \<lparr>latitude = snd (centroid geo (geometry r)),
      longitude = fst (centroid geo (geometry r)),
      osm_id = row_id r,
      tags = \<lparr>name = row_get r ''name'', ref = row_get r ''ref'', level = row_get r ''level''\<rparr>,
      nodes = map to_node (room_nodes (geometry r))\<rparr>"

definition is_exact :: "string \<Rightarrow> room_match \<Rightarrow> bool" where
  "is_exact room_identifier r \<longleftrightarrow>
     py_str (ref (tags r)) = room_identifier \<or> py_str (name (tags r)) = room_identifier"

text \<open>
  \<open>find_room\<close>. It returns \<open>Inl msg\<close> for the dictionary \<open>{"error": msg}\<close> and
  \<open>Inr m\<close> for a room match, and it raises where \<open>.empty\<close> is read from a query result
  that is \<open>None\<close>. The argument \<open>pbf_path\<close> of the source is never read and is left
  out; the parser object and the geometry library are passed in.
\<close>

definition find_room :: "osm \<Rightarrow> shapely \<Rightarrow> string \<Rightarrow> string \<Rightarrow> (string + room_match) outcome" where
  "find_room osm geo building_name room_identifier =
     (case get_buildings osm (building_query building_name) of
        None \<Rightarrow> Raised (attribute_error ''NoneType'' ''empty'')
      | Some buildings \<Rightarrow>
          if buildings = [] then Returned (Inl (building_not_found building_name))
          else
            let building_geom = unary_union geo (map geometry buildings);
                room_identifier = upper room_identifier
            in
            (case get_data_by_custom_criteria osm (room_criteria room_identifier) of
               None \<Rightarrow> Raised (attribute_error ''NoneType'' ''empty'')
             | Some rooms \<Rightarrow>
                 if rooms = [] then Returned (Inl (room_not_in_dataset room_identifier))
                 else
                   let centroids = map (add_centroid geo) rooms;
                       rooms_in_building = sjoin_within geo centroids building_geom
                   in
                   if rooms_in_building = []
                   then Returned (Inl (room_not_in_building room_identifier building_name))
                   else
                     let results = map (format_row geo) rooms_in_building;
                         exact_matches = filter (is_exact room_identifier) results
                     in
                     (case exact_matches of
                        [] \<Rightarrow> Returned (Inl (exact_match_not_found room_identifier))
                      | m # _ \<Rightarrow> Returned (Inr m))))"

text \<open>
  The intermediate frames of \<open>find_room\<close> under their own names: the rows of the
  building query, the unioned building geometry, the candidates of the dataset-wide query,
  and the joined rows. \<open>rows_of\<close> gives the rows of a query result, none for \<open>None\<close>.
\<close>

definition rows_of :: "row list option \<Rightarrow> row list" where
  "rows_of result = (case result of None \<Rightarrow> [] | Some rows \<Rightarrow> rows)"

definition buildings_of :: "osm \<Rightarrow> string \<Rightarrow> row list" where
  "buildings_of osm building_name = rows_of (get_buildings osm (building_query building_name))"

definition building_geom_of :: "osm \<Rightarrow> shapely \<Rightarrow> string \<Rightarrow> geom" where
  "building_geom_of osm geo building_name =
     unary_union geo (map geometry (buildings_of osm building_name))"

definition rooms_of :: "osm \<Rightarrow> string \<Rightarrow> row list" where
  "rooms_of osm room_identifier =
     rows_of (get_data_by_custom_criteria osm (room_criteria (upper room_identifier)))"

definition rooms_in_building_of :: "osm \<Rightarrow> shapely \<Rightarrow> string \<Rightarrow> string \<Rightarrow> room_row list" where
  "rooms_in_building_of osm geo building_name room_identifier =
     sjoin_within geo (map (add_centroid geo) (rooms_of osm room_identifier))
       (building_geom_of osm geo building_name)"

section \<open>Requests, JSON values and the Python runtime\<close>

text \<open>
  A parsed JSON body. An object is the list of its items in insertion order, as a Python
  dictionary keeps them; the keys of a dictionary are distinct.
\<close>

datatype json =
    JNull
  | JBool bool
  | JInt int
  | JFloat real
  | JStr string
  | JArr "json list"
  | JObj "(string \<times> json) list"

text \<open>The name of the Python type of a parsed value.\<close>

fun type_name :: "json \<Rightarrow> string" where
  "type_name JNull = ''NoneType''"
| "type_name (JBool _) = ''bool''"
| "type_name (JInt _) = ''int''"
| "type_name (JFloat _) = ''float''"
| "type_name (JStr _) = ''str''"
| "type_name (JArr _) = ''list''"
| "type_name (JObj _) = ''dict''"

text \<open>
  What the model takes from the interpreter and its libraries without looking inside:
  the MD5 hex digest, the encoders of the JSON module for a string and a float, the
  messages of the TypeErrors that \<open>in\<close> and subscription raise (they change with the
  version of the interpreter), and the behaviour of \<open>find_room\<close> when the building name
  it is called with is not text (it then depends on what the map data source does with
  such a filter).
\<close>

record python =
  md5_hexdigest :: "string \<Rightarrow> string"
  encode_basestring :: "string \<Rightarrow> string"
  float_repr :: "real \<Rightarrow> string"
  not_iterable :: "json \<Rightarrow> string"
  bad_subscript :: "json \<Rightarrow> string"
  find_room_untyped :: "json \<Rightarrow> json \<Rightarrow> (string + room_match) outcome"

text \<open>The request: its path, and what \<open>request.get_json()\<close> does on it.\<close>

record request =
  path :: string
  get_json :: "json outcome"

text \<open>Truth value of a parsed body, as \<open>not data\<close> tests it.\<close>

fun truthy :: "json \<Rightarrow> bool" where
  "truthy JNull = False"
| "truthy (JBool b) = b"
| "truthy (JInt i) = (i \<noteq> 0)"
| "truthy (JFloat x) = (x \<noteq> 0)"
| "truthy (JStr s) = (s \<noteq> [])"
| "truthy (JArr xs) = (xs \<noteq> [])"
| "truthy (JObj kvs) = (kvs \<noteq> [])"

text \<open>
  \<open>k in data\<close> for a text \<open>k\<close>: a key of a dictionary, an element of a list, a
  substring of a text; a TypeError on anything else.
\<close>

fun is_substring :: "string \<Rightarrow> string \<Rightarrow> bool" where
  "is_substring k [] = (k = [])"
| "is_substring k (c # s) = (take (length k) (c # s) = k \<or> is_substring k s)"

fun contains :: "python \<Rightarrow> string \<Rightarrow> json \<Rightarrow> bool outcome" where
  "contains py k (JObj kvs) = Returned (k \<in> set (map fst kvs))"
| "contains py k (JArr xs) = Returned (JStr k \<in> set xs)"
| "contains py k (JStr s) = Returned (is_substring k s)"
| "contains py k v = Raised (not_iterable py v)"

text \<open>\<open>data[k]\<close> for a text \<open>k\<close>; the text of a KeyError is the key's \<open>repr\<close>.\<close>

fun getitem :: "python \<Rightarrow> json \<Rightarrow> string \<Rightarrow> json outcome" where
  "getitem py (JObj kvs) k = (case map_of kvs k of None \<Rightarrow> Raised (quoted k) | Some v \<Rightarrow> Returned v)"
| "getitem py v k = Raised (bad_subscript py v)"

section \<open>The cache key of a request body\<close>

definition join :: "string \<Rightarrow> string list \<Rightarrow> string" where
  "join sep xs = (case xs of [] \<Rightarrow> [] | x # rest \<Rightarrow> x @ concat (map (\<lambda>y. sep @ y) rest))"

text \<open>
  \<open>json.dumps(json_data, sort_keys=True)\<close>: the items of every object are written in
  the order of their keys.
\<close>

function dumps :: "python \<Rightarrow> json \<Rightarrow> string" where
  "dumps py JNull = ''null''"
| "dumps py (JBool b) = (if b then ''true'' else ''false'')"
| "dumps py (JInt i) = py_str (CInt i)"
| "dumps py (JFloat x) = float_repr py x"
| "dumps py (JStr s) = encode_basestring py s"
| "dumps py (JArr xs) = ''['' @ join '', '' (map (dumps py) xs) @ '']''"
| "dumps py (JObj kvs) =
     ''{'' @ join '', '' (map (\<lambda>kv. encode_basestring py (fst kv) @ '': '' @ dumps py (snd kv))
                               (sort_key fst kvs)) @ ''}''"
  by pat_completeness auto
termination
proof (relation "measure (\<lambda>(py, v). size v)")
  show "wf (measure (\<lambda>(py, v). size v))" by simp
next
  fix py :: python and xs :: "json list" and x
  assume "x \<in> set xs"
  then have "size x \<le> size_list size xs"
    by (rule size_list_estimation') simp
  then have "size x < Suc (size_list size xs)" by simp
  then show "((py, x), (py, JArr xs)) \<in> measure (\<lambda>(py, v). size v)" by simp
next
  fix py :: python and kvs :: "(string \<times> json) list" and kv
  assume "kv \<in> set (sort_key fst kvs)"
  then have "kv \<in> set kvs" by simp
  then have "size (snd kv) \<le> size_list (size_prod (\<lambda>_. 0) size) kvs"
    by (rule size_list_estimation') (cases kv, simp)
  then have "size (snd kv) < Suc (size_list (size_prod (\<lambda>_. 0) size) kvs)" by simp
  then show "((py, snd kv), (py, JObj kvs)) \<in> measure (\<lambda>(py, v). size v)" by simp
qed

definition make_request_body_cache_key :: "python \<Rightarrow> request \<Rightarrow> string" where
  "make_request_body_cache_key py req =
     (case get_json req of
        Raised e \<Rightarrow> path req
      | Returned json_data \<Rightarrow>
          if \<not> truthy json_data then path req
          else
            let payload_str = dumps py json_data;
                payload_hash = md5_hexdigest py payload_str
            in path req @ '':'' @ payload_hash)"

section \<open>The handlers\<close>

record entry =
  entry_osm_id :: cell
  entry_name :: cell

datatype body =
    ErrorBody string
  | MatchBody room_match
  | ListBody "entry list"
  | InternalServerError

record response =
  status :: nat
  body :: body

text \<open>
  \<open>find_room\<close> as the handler calls it, with whatever the body holds under the two keys.
  With a room identifier that is not text, the building lookup still runs and
  \<open>room_identifier.upper()\<close> raises after it.
\<close>

definition find_room_call :: "python \<Rightarrow> osm \<Rightarrow> shapely \<Rightarrow> json \<Rightarrow> json \<Rightarrow> (string + room_match) outcome" where
  "find_room_call py osm geo building_name room_identifier =
     (case building_name of
        JStr b \<Rightarrow>
          (case room_identifier of
             JStr r \<Rightarrow> find_room osm geo b r
           | _ \<Rightarrow>
               (case get_buildings osm (building_query b) of
                  None \<Rightarrow> Raised (attribute_error ''NoneType'' ''empty'')
                | Some buildings \<Rightarrow>
                    if buildings = [] then Returned (Inl (building_not_found b))
                    else Raised (attribute_error (type_name room_identifier) ''upper'')))
      | _ \<Rightarrow> find_room_untyped py building_name room_identifier)"

text \<open>\<open>not data or 'building' not in data or 'room' not in data\<close>, left to right.\<close>

definition missing_parameters :: "python \<Rightarrow> json \<Rightarrow> bool outcome" where
  "missing_parameters py data =
     (if \<not> truthy data then Returned True
      else
        (case contains py ''building'' data of
           Raised e \<Rightarrow> Raised e
         | Returned has_building \<Rightarrow>
             if \<not> has_building then Returned True
             else
               (case contains py ''room'' data of
                  Raised e \<Rightarrow> Raised e
                | Returned has_room \<Rightarrow> Returned (\<not> has_room))))"

text \<open>The body of the \<open>try\<close> block of \<open>handle_find_room\<close>, and the handler around it.\<close>

definition handle_find_room_try :: "python \<Rightarrow> osm \<Rightarrow> shapely \<Rightarrow> request \<Rightarrow> response outcome" where
  "handle_find_room_try py osm geo req =
     (case get_json req of
        Raised e \<Rightarrow> Raised e
      | Returned data \<Rightarrow>
          (case missing_parameters py data of
             Raised e \<Rightarrow> Raised e
           | Returned missing \<Rightarrow>
               if missing then Returned \<lparr>status = 400, body = ErrorBody ''Missing required parameters''\<rparr>
               else
                 (case getitem py data ''building'' of
                    Raised e \<Rightarrow> Raised e
                  | Returned building_name \<Rightarrow>
                      (case getitem py data ''room'' of
                         Raised e \<Rightarrow> Raised e
                       | Returned room_identifier \<Rightarrow>
                           (case find_room_call py osm geo building_name room_identifier of
                              Raised e \<Rightarrow> Raised e
                            | Returned (Inl msg) \<Rightarrow> Returned \<lparr>status = 404, body = ErrorBody msg\<rparr>
                            | Returned (Inr m) \<Rightarrow> Returned \<lparr>status = 200, body = MatchBody m\<rparr>)))))"

definition handle_find_room :: "python \<Rightarrow> osm \<Rightarrow> shapely \<Rightarrow> request \<Rightarrow> response" where
  "handle_find_room py osm geo req =
     (case handle_find_room_try py osm geo req of
        Returned resp \<Rightarrow> resp
      | Raised e \<Rightarrow> \<lparr>status = 500, body = ErrorBody (''Server error: '' @ e)\<rparr>)"

text \<open>
  The route \<open>/v1/find-room\<close>: the handler under its decorator \<open>cache.cached\<close>. The cache
  is a store from keys to responses. A request whose key is in the store is answered from
  it and the handler does not run; otherwise the handler runs and its response is stored
  under the key. An exception that escapes a view is not stored.
\<close>

type_synonym cache = "string \<rightharpoonup> response"

definition cached :: "string \<Rightarrow> response outcome \<Rightarrow> cache \<Rightarrow> response outcome \<times> cache" where
  "cached key view store =
     (case store key of
        Some rv \<Rightarrow> (Returned rv, store)
      | None \<Rightarrow>
          (case view of
             Raised e \<Rightarrow> (Raised e, store)
           | Returned rv \<Rightarrow> (Returned rv, store(key \<mapsto> rv))))"

definition find_room_route :: "python \<Rightarrow> osm \<Rightarrow> shapely \<Rightarrow> request \<Rightarrow> cache \<Rightarrow> response outcome \<times> cache" where
  "find_room_route py osm geo req store =
     cached (make_request_body_cache_key py req) (Returned (handle_find_room py osm geo req)) store"

text \<open>
  \<open>handle_rooms\<close>: the query passes only \<open>custom_filter\<close>, the other arguments keep
  their defaults. The view has no \<open>try\<close> block: \<open>buildings.iterrows()\<close> raises when the
  query answered \<open>None\<close>, and the exception escapes.
\<close>

definition university_criteria :: criteria where
  "university_criteria =
     \<lparr>custom_filter = [(''building'', [''university''])],
      extra_attributes = None,
      filter_type = ''keep'',
      keep_nodes = True,
      keep_ways = True\<rparr>"

definition project :: "row \<Rightarrow> entry" where
  "project r = \<lparr>entry_osm_id = row_get r ''osm_id'', entry_name = row_get r ''name''\<rparr>"

definition handle_rooms :: "osm \<Rightarrow> response outcome" where
  "handle_rooms osm =
     (case get_data_by_custom_criteria osm university_criteria of
        None \<Rightarrow> Raised (attribute_error ''NoneType'' ''iterrows'')
      | Some buildings \<Rightarrow>
          let results = map project buildings
          in Returned \<lparr>status = 200, body = ListBody results\<rparr>)"

text \<open>
  The route \<open>/v1/rooms\<close>: the view under \<open>cache.cached(query_string=True)\<close>; the key is
  what the cache library derives from the path and the query string. What the client
  gets: the response of the view, or, for an exception that escaped it, the framework's
  answer, status 500 with its own error page.
\<close>

definition rooms_route :: "osm \<Rightarrow> string \<Rightarrow> cache \<Rightarrow> response outcome \<times> cache" where
  "rooms_route osm key store = cached key (handle_rooms osm) store"

definition served :: "response outcome \<Rightarrow> response" where
  "served result =
     (case result of
        Returned resp \<Rightarrow> resp
      | Raised e \<Rightarrow> \<lparr>status = 500, body = InternalServerError\<rparr>)"

text \<open>
  Two parsed bodies hold the same key/value pairs when they are the same value, or arrays
  of such bodies, or objects with the same keys whose values are such bodies, in whatever
  order the keys were written.
\<close>

inductive same_items :: "json \<Rightarrow> json \<Rightarrow> bool" where
  same: "same_items v v"
| arrays: "list_all2 same_items xs ys \<Longrightarrow> same_items (JArr xs) (JArr ys)"
| objects:
    "distinct (map fst kvs) \<Longrightarrow> distinct (map fst kvs') \<Longrightarrow>
     fst ` set kvs = fst ` set kvs' \<Longrightarrow>
     (\<forall>k \<in> fst ` set kvs. \<exists>v v'. map_of kvs k = Some v \<and> map_of kvs' k = Some v' \<and> same_items v v') \<Longrightarrow>
     same_items (JObj kvs) (JObj kvs')"

section \<open>A small campus\<close>

text \<open>
  A concrete extract and a concrete geometry library, for evaluating the model. The
  shapes are points, one-segment lines and polygons whose rings are rectangles parallel
  to the axes. The centroid of a polygon or multipolygon is the centroid of its area,
  holes taken out, by the surveyor's formula; that of a one-segment line is its midpoint.
  A shape is taken to be within another when all its vertices are strictly inside the
  bounding box of the other, which is exact for a point or a segment against a rectangle
  without holes, the only tests the campus makes. The union of one shape is that shape;
  no building of the campus has several parts. On shapes of other kinds, which the campus
  does not have, the sample library is not the real one: it takes the centre of the
  bounding box for the centroid and the collection of the parts for the union.
\<close>

definition rect :: "real \<Rightarrow> real \<Rightarrow> real \<Rightarrow> real \<Rightarrow> coord list" where
  "rect x0 y0 x1 y1 = [(x0, y0), (x1, y0), (x1, y1), (x0, y1), (x0, y0)]"

fun vertices :: "geom \<Rightarrow> coord list" where
  "vertices (Point c) = [c]"
| "vertices (LineString cs) = cs"
| "vertices (LinearRing cs) = cs"
| "vertices (Polygon p) = exterior p"
| "vertices (MultiPoint cs) = cs"
| "vertices (MultiLineString css) = concat css"
| "vertices (MultiPolygon ps) = concat (map exterior ps)"
| "vertices (GeometryCollection gs) = concat (map vertices gs)"

definition lo :: "real list \<Rightarrow> real" where
  "lo xs = (case xs of [] \<Rightarrow> 0 | x # rest \<Rightarrow> fold min rest x)"

definition hi :: "real list \<Rightarrow> real" where
  "hi xs = (case xs of [] \<Rightarrow> 0 | x # rest \<Rightarrow> fold max rest x)"

definition box_centre :: "geom \<Rightarrow> coord" where
  "box_centre g =
     (let xs = map fst (vertices g); ys = map snd (vertices g)
      in ((lo xs + hi xs) / 2, (lo ys + hi ys) / 2))"

definition cross :: "coord \<Rightarrow> coord \<Rightarrow> real" where
  "cross p q = fst p * snd q - fst q * snd p"

fun ring_sum :: "(coord \<Rightarrow> coord \<Rightarrow> real) \<Rightarrow> coord list \<Rightarrow> real" where
  "ring_sum f (p # q # rest) = f p q + ring_sum f (q # rest)"
| "ring_sum f _ = 0"

text \<open>
  Twice the area of a ring, and six times its first moment in a coordinate, counted
  positive whichever way the ring runs.
\<close>

definition ring_area :: "coord list \<Rightarrow> real" where
  "ring_area ring = \<bar>ring_sum cross ring\<bar>"

definition ring_moment :: "(coord \<Rightarrow> real) \<Rightarrow> coord list \<Rightarrow> real" where
  "ring_moment coordinate ring =
     (let m = ring_sum (\<lambda>p q. (coordinate p + coordinate q) * cross p q) ring
      in if ring_sum cross ring < 0 then - m else m)"

definition polygon_area :: "polygon \<Rightarrow> real" where
  "polygon_area p = ring_area (exterior p) - sum_list (map ring_area (interiors p))"

definition polygon_moment :: "(coord \<Rightarrow> real) \<Rightarrow> polygon \<Rightarrow> real" where
  "polygon_moment coordinate p =
     ring_moment coordinate (exterior p) - sum_list (map (ring_moment coordinate) (interiors p))"

definition area_centroid :: "polygon list \<Rightarrow> coord" where
  "area_centroid ps =
     (let a = sum_list (map polygon_area ps)
      in (sum_list (map (polygon_moment fst) ps) / (3 * a),
          sum_list (map (polygon_moment snd) ps) / (3 * a)))"

fun sample_centroid :: "geom \<Rightarrow> coord" where
  "sample_centroid (Point c) = c"
| "sample_centroid (LineString [p, q]) = ((fst p + fst q) / 2, (snd p + snd q) / 2)"
| "sample_centroid (Polygon p) = area_centroid [p]"
| "sample_centroid (MultiPolygon ps) = area_centroid ps"
| "sample_centroid g = box_centre g"

definition box_within :: "geom \<Rightarrow> geom \<Rightarrow> bool" where
  "box_within a b =
     (let xs = map fst (vertices b); ys = map snd (vertices b)
      in vertices a \<noteq> [] \<and>
         list_all (\<lambda>c. lo xs < fst c \<and> fst c < hi xs \<and> lo ys < snd c \<and> snd c < hi ys) (vertices a))"

definition sample_geo :: shapely where
  "sample_geo =
     \<lparr>centroid = sample_centroid,
      unary_union = (\<lambda>gs. case gs of [g] \<Rightarrow> g | _ \<Rightarrow> GeometryCollection gs),
      geom_within = box_within\<rparr>"

definition feature :: "geom \<Rightarrow> int \<Rightarrow> (string \<times> cell) list \<Rightarrow> row" where
  "feature g i cols = \<lparr>geometry = g, row_id = i, columns = map_of cols\<rparr>"

definition hall :: row where
  "hall = feature (Polygon \<lparr>exterior = rect 0 0 10 10, interiors = []\<rparr>) 1
     [(''osm_id'', CInt 1), (''name'', CStr ''Hall'')]"

definition depot :: row where
  "depot = feature (Polygon \<lparr>exterior = rect 20 0 30 10, interiors = []\<rparr>) 2 [(''name'', CStr ''Depot'')]"

definition room_11 :: row where
  "room_11 = feature (Point (50, 50)) 11
     [(''ref'', CStr ''A101''), (''name'', CNone), (''level'', CStr ''0'')]"

definition room_12 :: row where
  "room_12 = feature (Polygon \<lparr>exterior = rect 1 1 3 3, interiors = []\<rparr>) 12
     [(''ref'', CStr ''A101B''), (''name'', CStr ''Annex A101''), (''level'', CStr ''0'')]"

definition room_13 :: row where
  "room_13 = feature (Polygon \<lparr>exterior = rect 4 5 8 7, interiors = [rect 5 (11/2) 6 (13/2)]\<rparr>) 13
     [(''ref'', CStr ''A101''), (''name'', CNaN), (''level'', CStr ''2'')]"

definition room_14 :: row where
  "room_14 = feature (Polygon \<lparr>exterior = rect 1 6 3 8, interiors = []\<rparr>) 14
     [(''ref'', CNone), (''name'', CStr ''A101''), (''level'', CStr ''1'')]"

definition room_21 :: row where
  "room_21 = feature (Point (5, 6)) 21 [(''ref'', CStr ''B7''), (''name'', CNone), (''level'', CNone)]"

definition room_31 :: row where
  "room_31 = feature (LineString [(2, 2), (14, 2)]) 31
     [(''ref'', CStr ''C3''), (''name'', CNone), (''level'', CNone)]"

definition room_41 :: row where
  "room_41 = feature
     (MultiPolygon [\<lparr>exterior = rect 1 1 3 2, interiors = [rect 2 (5/4) (5/2) (7/4)]\<rparr>,
                    \<lparr>exterior = rect 3 3 5 4, interiors = []\<rparr>]) 41
     [(''ref'', CStr ''M1''), (''name'', CNone), (''level'', CStr ''1'')]"

definition room_51 :: row where
  "room_51 = feature (Point (50, 50)) 51 [(''ref'', CStr ''Z9''), (''name'', CNone), (''level'', CNone)]"

definition room_61 :: row where
  "room_61 = feature (Polygon \<lparr>exterior = rect 1 1 2 2, interiors = []\<rparr>) 61
     [(''ref'', CStr ''P10''), (''name'', CStr ''P1 STORE''), (''level'', CNone)]"

text \<open>
  The data source of the campus answers as the parser library does: with the rows that
  match, and with \<open>None\<close> when nothing matches.
\<close>

definition sample_rooms :: "string \<Rightarrow> row list option" where
  "sample_rooms ident =
     (if ident = ''A101'' then Some [room_11, room_12, room_13, room_14]
      else if ident = ''B7'' then Some [room_21]
      else if ident = ''C3'' then Some [room_31]
      else if ident = ''M1'' then Some [room_41]
      else if ident = ''Z9'' then Some [room_51]
      else if ident = ''P1'' then Some [room_61]
      else None)"

definition sample_osm :: osm where
  "sample_osm =
     \<lparr>get_buildings = (\<lambda>f.
        if f = [(''name'', [''Hall''])] then Some [hall]
        else if f = [(''name'', [''Depot''])] then Some [depot]
        else None),
      get_data_by_custom_criteria = (\<lambda>c.
        if c = \<lparr>custom_filter = [(''building'', [''university''])], extra_attributes = None,
                 filter_type = ''keep'', keep_nodes = True, keep_ways = True\<rparr>
        then Some [hall, depot]
        else if extra_attributes c = Some [''level''] \<and> filter_type c = ''keep'' \<and> keep_nodes c \<and> keep_ways c
        then (case custom_filter c of
                [(k1, [v1]), (k2, [v2]), (k3, [v3])] \<Rightarrow>
                  if k1 = ''indoor'' \<and> v1 = ''room'' \<and> k2 = ''ref'' \<and> k3 = ''name'' \<and> v2 = v3
                  then sample_rooms v2 else None
              | _ \<Rightarrow> None)
        else None)\<rparr>"

text \<open>
  The same extract behind a data source that answers a query without a match by an empty
  frame, which is what \<open>find_room\<close> tests for.
\<close>

definition with_empty_frames :: "osm \<Rightarrow> osm" where
  "with_empty_frames osm =
     \<lparr>get_buildings = (\<lambda>f. Some (rows_of (get_buildings osm f))),
      get_data_by_custom_criteria = (\<lambda>c. Some (rows_of (get_data_by_custom_criteria osm c)))\<rparr>"

definition framed_osm :: osm where
  "framed_osm = with_empty_frames sample_osm"

text \<open>
  An extract in which nothing is tagged \<open>building = university\<close>; every other query
  finds the hall.
\<close>

definition no_university_osm :: osm where
  "no_university_osm =
     \<lparr>get_buildings = (\<lambda>f. Some [hall]),
      get_data_by_custom_criteria = (\<lambda>c.
        if c = \<lparr>custom_filter = [(''building'', [''university''])], extra_attributes = None,
                 filter_type = ''keep'', keep_nodes = True, keep_ways = True\<rparr>
        then None else Some [hall])\<rparr>"

text \<open>
  A runtime for the evaluation: the digest is kept symbolic, a string is encoded by
  putting it between double quotes, and the messages are those of Python 3.11.
\<close>

definition sample_python :: python where
  "sample_python =
     \<lparr>md5_hexdigest = (\<lambda>s. ''md5<'' @ s @ ''>''),
      encode_basestring = (\<lambda>s. CHR 0x22 # s @ [CHR 0x22]),
      float_repr = (\<lambda>x. ''float''),
      not_iterable = (\<lambda>v. ''argument of type '' @ quoted (type_name v) @ '' is not iterable''),
      bad_subscript = (\<lambda>v.
        case v of
          JArr _ \<Rightarrow> ''list indices must be integers or slices, not str''
        | JStr _ \<Rightarrow> ''string indices must be integers, not '' @ quoted ''str''
        | _ \<Rightarrow> quoted (type_name v) @ '' object is not subscriptable''),
      find_room_untyped = (\<lambda>b r. Raised ''building name is not text'')\<rparr>"

definition posted :: "json outcome \<Rightarrow> request" where
  "posted parsed = \<lparr>path = ''/v1/find-room'', get_json = parsed\<rparr>"

section \<open>Properties of the pipeline\<close>

lemma foldl_exterior:
  "foldl (\<lambda>acc poly. acc @ exterior poly) a ps = a @ concat (map exterior ps)"
  by (induction ps arbitrary: a) simp_all

lemma room_nodes_cases:
  "room_nodes g =
     (case g of Polygon p \<Rightarrow> exterior p | MultiPolygon ps \<Rightarrow> concat (map exterior ps) | _ \<Rightarrow> [])"
  by (cases g) (simp_all add: room_nodes_def foldl_exterior)

lemma geometry_add_centroid [simp]: "geometry (add_centroid geo r) = geometry r"
  by (simp add: add_centroid_def row.extend_def)

lemma row_id_add_centroid [simp]: "row_id (add_centroid geo r) = row_id r"
  by (simp add: add_centroid_def row.extend_def)

lemma columns_add_centroid [simp]: "columns (add_centroid geo r) = columns r"
  by (simp add: add_centroid_def row.extend_def)

lemma centroid_col_add_centroid [simp]:
  "centroid_col (add_centroid geo r) = representative geo (geometry r)"
  by (simp add: add_centroid_def row.extend_def)

lemma find_room_unfold:
  "find_room osm geo b r =
     (case get_buildings osm (building_query b) of
        None \<Rightarrow> Raised (attribute_error ''NoneType'' ''empty'')
      | Some buildings \<Rightarrow>
          if buildings = [] then Returned (Inl (building_not_found b))
          else
            (case get_data_by_custom_criteria osm (room_criteria (upper r)) of
               None \<Rightarrow> Raised (attribute_error ''NoneType'' ''empty'')
             | Some rooms \<Rightarrow>
                 if rooms = [] then Returned (Inl (room_not_in_dataset (upper r)))
                 else if rooms_in_building_of osm geo b r = []
                 then Returned (Inl (room_not_in_building (upper r) b))
                 else
                   (case filter (is_exact (upper r))
                           (map (format_row geo) (rooms_in_building_of osm geo b r)) of
                      [] \<Rightarrow> Returned (Inl (exact_match_not_found (upper r)))
                    | m # _ \<Rightarrow> Returned (Inr m))))"
  by (simp add: find_room_def Let_def rooms_of_def rooms_in_building_of_def building_geom_of_def
      buildings_of_def rows_of_def split: option.split)

lemma find_room_Inr_D:
  assumes "find_room osm geo b r = Returned (Inr m)"
  shows "\<exists>pre x post. rooms_in_building_of osm geo b r = pre @ x # post
           \<and> m = format_row geo x \<and> is_exact (upper r) m
           \<and> (\<forall>y \<in> set pre. \<not> is_exact (upper r) (format_row geo y))"
proof -
  let ?J = "rooms_in_building_of osm geo b r"
  from assms obtain ms where "filter (is_exact (upper r)) (map (format_row geo) ?J) = m # ms"
    by (auto simp: find_room_unfold split: option.splits if_splits list.splits)
  then have "map (format_row geo) (filter (is_exact (upper r) \<circ> format_row geo) ?J) = m # ms"
    by (simp add: filter_map)
  then obtain x xs where fx: "filter (is_exact (upper r) \<circ> format_row geo) ?J = x # xs"
    and m: "m = format_row geo x"
    by (auto simp: map_eq_Cons_conv)
  from fx obtain pre post where "?J = pre @ x # post"
    and "\<forall>y \<in> set pre. \<not> is_exact (upper r) (format_row geo y)"
    and "is_exact (upper r) (format_row geo x)"
    by (auto simp: filter_eq_Cons_iff)
  with m show ?thesis by blast
qed

text \<open>
  The failures of \<open>find_room\<close> in the order of the source: a query that answers \<open>None\<close>
  makes it raise, an empty frame gives the message of that step.
\<close>

lemma find_room_failures:
  "(get_buildings osm (building_query b) = None \<longrightarrow>
      find_room osm geo b r = Raised (attribute_error ''NoneType'' ''empty''))
   \<and> (get_buildings osm (building_query b) = Some [] \<longrightarrow>
        find_room osm geo b r = Returned (Inl (building_not_found b)))
   \<and> (buildings_of osm b \<noteq> [] \<and> get_data_by_custom_criteria osm (room_criteria (upper r)) = None \<longrightarrow>
        find_room osm geo b r = Raised (attribute_error ''NoneType'' ''empty''))
   \<and> (buildings_of osm b \<noteq> [] \<and> get_data_by_custom_criteria osm (room_criteria (upper r)) = Some [] \<longrightarrow>
        find_room osm geo b r = Returned (Inl (room_not_in_dataset (upper r))))
   \<and> (buildings_of osm b \<noteq> [] \<and> rooms_of osm r \<noteq> [] \<and> rooms_in_building_of osm geo b r = [] \<longrightarrow>
        find_room osm geo b r = Returned (Inl (room_not_in_building (upper r) b)))
   \<and> (buildings_of osm b \<noteq> [] \<and> rooms_in_building_of osm geo b r \<noteq> []
        \<and> (\<forall>y \<in> set (rooms_in_building_of osm geo b r).
              py_str (row_get y ''ref'') \<noteq> upper r \<and> py_str (row_get y ''name'') \<noteq> upper r) \<longrightarrow>
        find_room osm geo b r = Returned (Inl (exact_match_not_found (upper r))))"
proof (intro conjI impI)
  assume a: "buildings_of osm b \<noteq> [] \<and> rooms_in_building_of osm geo b r \<noteq> []
        \<and> (\<forall>y \<in> set (rooms_in_building_of osm geo b r).
              py_str (row_get y ''ref'') \<noteq> upper r \<and> py_str (row_get y ''name'') \<noteq> upper r)"
  then have "rooms_of osm r \<noteq> []"
    by (auto simp: rooms_in_building_of_def sjoin_within_def)
  moreover from a have
    "filter (is_exact (upper r)) (map (format_row geo) (rooms_in_building_of osm geo b r)) = []"
    by (simp add: filter_empty_conv is_exact_def format_row_def)
  ultimately show "find_room osm geo b r = Returned (Inl (exact_match_not_found (upper r)))"
    using a
    by (auto simp: find_room_unfold buildings_of_def rooms_of_def rows_of_def split: option.splits)
qed (auto simp: find_room_unfold buildings_of_def rooms_of_def rows_of_def split: option.splits)

lemma upper_char_upper [simp]: "upper_char (upper_char c) = upper_char c"
  by (auto simp: upper_char_def Let_def)

lemma upper_idem [simp]: "upper (upper s) = upper s"
  by (simp add: upper_def)

lemma upper_char_not_lower: "\<not> (97 \<le> (of_char (upper_char c) :: nat) \<and> (of_char (upper_char c) :: nat) \<le> 122)"
  by (auto simp: upper_char_def Let_def)

lemma upper_no_lower:
  assumes "c \<in> set (upper s)"
  shows "\<not> (97 \<le> (of_char c :: nat) \<and> (of_char c :: nat) \<le> 122)"
  using assms upper_char_not_lower by (auto simp: upper_def)

lemma upper_not_None: "upper s \<noteq> ''None''"
proof
  assume "upper s = ''None''"
  then have "CHR ''o'' \<in> set (upper s)" by simp
  from upper_no_lower [OF this] show False by simp
qed

lemma upper_not_nan: "upper s \<noteq> ''nan''"
proof
  assume "upper s = ''nan''"
  then have "CHR ''n'' \<in> set (upper s)" by simp
  from upper_no_lower [OF this] show False by simp
qed

lemma py_str_upper_present:
  assumes "py_str t = upper s"
  shows "t \<noteq> CNone \<and> t \<noteq> CNaN"
  using assms upper_not_None [of s] upper_not_nan [of s] by (cases t) auto

lemma map_insort_key: "map f (insort_key f x xs) = insort (f x) (map f xs)"
  by (induction xs) simp_all

lemma map_sort_key: "map f (sort_key f xs) = sort (map f xs)"
  by (induction xs) (simp_all add: map_insort_key)

lemma sort_key_fst_distinct:
  assumes "distinct (map fst kvs)"
  shows "sort_key fst kvs = map (\<lambda>k. (k, the (map_of kvs k))) (sort (map fst kvs))"
proof -
  have "map (\<lambda>kv. (fst kv, the (map_of kvs (fst kv)))) (sort_key fst kvs) = map (\<lambda>kv. kv) (sort_key fst kvs)"
  proof (rule map_cong [OF refl])
    fix kv assume "kv \<in> set (sort_key fst kvs)"
    then have "kv \<in> set kvs" by simp
    then have "map_of kvs (fst kv) = Some (snd kv)"
      by (simp add: map_of_eq_Some_iff [OF assms])
    then show "(fst kv, the (map_of kvs (fst kv))) = kv" by simp
  qed
  then have "sort_key fst kvs = map (\<lambda>k. (k, the (map_of kvs k))) (map fst (sort_key fst kvs))"
    by (simp add: comp_def)
  also have "map fst (sort_key fst kvs) = sort (map fst kvs)"
    by (rule map_sort_key)
  finally show ?thesis .
qed

lemma sort_keys_same:
  assumes "distinct (ks :: string list)" "distinct ks'" "set ks = set ks'"
  shows "sort ks = sort ks'"
  using assms by (metis sorted_list_of_set_sort_remdups distinct_remdups_id)

lemma same_items_truthy: "same_items a b \<Longrightarrow> truthy a = truthy b"
proof (induction rule: same_items.induct)
  case (arrays xs ys)
  then have "length xs = length ys" by (simp add: list_all2_lengthD)
  then show ?case by auto
next
  case (objects kvs kvs')
  then show ?case by (cases kvs; cases kvs') auto
qed simp

lemma same_items_dumps: "same_items a b \<Longrightarrow> dumps py a = dumps py b"
proof (induction rule: same_items.induct)
  case (same v)
  show ?case by simp
next
  case (arrays xs ys)
  then have "list_all2 (\<lambda>x y. dumps py x = dumps py y) xs ys"
    by (simp add: list_all2_mono)
  then have "map (dumps py) xs = map (dumps py) ys"
    by (induction rule: list_all2_induct) simp_all
  then show ?case by simp
next
  case (objects kvs kvs')
  let ?enc = "\<lambda>kv. encode_basestring py (fst kv) @ '': '' @ dumps py (snd kv)"
  have keys: "sort (map fst kvs) = sort (map fst kvs')"
    using objects(1-3) by (intro sort_keys_same) simp_all
  have "map ?enc (sort_key fst kvs) = map (\<lambda>k. ?enc (k, the (map_of kvs k))) (sort (map fst kvs))"
    by (simp add: sort_key_fst_distinct [OF objects(1)] comp_def)
  also have "\<dots> = map (\<lambda>k. ?enc (k, the (map_of kvs' k))) (sort (map fst kvs))"
  proof (rule map_cong [OF refl])
    fix k assume "k \<in> set (sort (map fst kvs))"
    then have "k \<in> fst ` set kvs" by simp
    with objects(4) obtain v v' where "map_of kvs k = Some v" "map_of kvs' k = Some v'"
      "dumps py v = dumps py v'" by blast
    then show "?enc (k, the (map_of kvs k)) = ?enc (k, the (map_of kvs' k))" by simp
  qed
  also have "\<dots> = map ?enc (sort_key fst kvs')"
    by (simp add: sort_key_fst_distinct [OF objects(2)] comp_def keys)
  finally show ?case by simp
qed

lemma make_key_cases:
  "make_request_body_cache_key py req =
     (case get_json req of
        Raised e \<Rightarrow> path req
      | Returned d \<Rightarrow> if truthy d then path req @ '':'' @ md5_hexdigest py (dumps py d) else path req)"
  by (simp add: make_request_body_cache_key_def Let_def split: outcome.split)

lemma missing_parameters_falsy: "\<not> truthy data \<Longrightarrow> missing_parameters py data = Returned True"
  by (simp add: missing_parameters_def)

lemma missing_parameters_object:
  "kvs \<noteq> [] \<Longrightarrow> missing_parameters py (JObj kvs) =
     Returned (''building'' \<notin> fst ` set kvs \<or> ''room'' \<notin> fst ` set kvs)"
  by (simp add: missing_parameters_def)

lemma key_of_map_of: "map_of items k = Some v \<Longrightarrow> k \<in> fst ` set items"
  by (force dest: map_of_SomeD)

lemma missing_parameters_present:
  assumes "map_of items ''building'' = Some bv" and "map_of items ''room'' = Some rv"
  shows "missing_parameters py (JObj items) = Returned False"
proof -
  from assms(1) have "items \<noteq> []" by auto
  then show ?thesis
    using key_of_map_of [OF assms(1)] key_of_map_of [OF assms(2)]
    by (simp add: missing_parameters_object)
qed

lemma handle_find_room_unfold:
  "handle_find_room py osm geo req =
     (case handle_find_room_try py osm geo req of
        Returned resp \<Rightarrow> resp
      | Raised e \<Rightarrow> \<lparr>status = 500, body = ErrorBody (''Server error: '' @ e)\<rparr>)"
  by (simp add: handle_find_room_def)

lemma missing_parameters_array:
  "xs \<noteq> [] \<Longrightarrow> missing_parameters py (JArr xs) =
     Returned (JStr ''building'' \<notin> set xs \<or> JStr ''room'' \<notin> set xs)"
  by (simp add: missing_parameters_def)

lemma missing_parameters_text:
  "s \<noteq> [] \<Longrightarrow> missing_parameters py (JStr s) =
     Returned (\<not> is_substring ''building'' s \<or> \<not> is_substring ''room'' s)"
  by (simp add: missing_parameters_def)

lemma missing_parameters_scalar:
  "truthy data \<Longrightarrow> data = JInt i \<or> data = JFloat x \<or> data = JBool t \<Longrightarrow>
     missing_parameters py data = Raised (not_iterable py data)"
  by (auto simp: missing_parameters_def)

text \<open>
  The answers of the handler, when it runs: 400 when the test for the two names says they
  are missing, 404 or 200 after \<open>find_room\<close> returned, and 500 for an exception.
\<close>

lemma handle_find_room_missing:
  assumes "get_json req = Returned data" and "missing_parameters py data = Returned True"
  shows "handle_find_room py osm geo req = \<lparr>status = 400, body = ErrorBody ''Missing required parameters''\<rparr>"
  using assms by (simp add: handle_find_room_unfold handle_find_room_try_def)

lemma handle_find_room_found:
  assumes "get_json req = Returned (JObj items)"
    and "map_of items ''building'' = Some bv" and "map_of items ''room'' = Some rv"
  shows "handle_find_room py osm geo req =
     (case find_room_call py osm geo bv rv of
        Raised e \<Rightarrow> \<lparr>status = 500, body = ErrorBody (''Server error: '' @ e)\<rparr>
      | Returned (Inl msg) \<Rightarrow> \<lparr>status = 404, body = ErrorBody msg\<rparr>
      | Returned (Inr m) \<Rightarrow> \<lparr>status = 200, body = MatchBody m\<rparr>)"
  using assms missing_parameters_present [OF assms(2,3), of py]
  by (simp add: handle_find_room_unfold handle_find_room_try_def split: outcome.split sum.split)

lemma handle_find_room_raised:
  assumes "handle_find_room_try py osm geo req = Raised e"
  shows "handle_find_room py osm geo req = \<lparr>status = 500, body = ErrorBody (''Server error: '' @ e)\<rparr>"
  using assms by (simp add: handle_find_room_unfold)

text \<open>
  The cache in front of a view: a stored response is served as it is, whatever the view
  would answer now; on a miss the view's response is served and stored.
\<close>

lemma cached_hit: "store key = Some rv \<Longrightarrow> cached key view store = (Returned rv, store)"
  by (simp add: cached_def)

lemma cached_miss:
  "store key = None \<Longrightarrow> cached key (Returned rv) store = (Returned rv, store(key \<mapsto> rv))"
  by (simp add: cached_def)

lemma cached_raised: "store key = None \<Longrightarrow> cached key (Raised e) store = (Raised e, store)"
  by (simp add: cached_def)

text \<open>The listing, when the query answers with a frame.\<close>

lemma handle_rooms_frame:
  assumes "get_data_by_custom_criteria osm
             \<lparr>custom_filter = [(''building'', [''university''])], extra_attributes = None,
              filter_type = ''keep'', keep_nodes = True, keep_ways = True\<rparr> = Some rows"
  shows "handle_rooms osm =
     Returned \<lparr>status = 200,
               body = ListBody (map (\<lambda>r. \<lparr>entry_osm_id = row_get r ''osm_id'', entry_name = row_get r ''name''\<rparr>) rows)\<rparr>"
  using assms by (simp add: handle_rooms_def university_criteria_def project_def)

section \<open>The campus, evaluated\<close>

lemma sample_buildings [simp]:
  "get_buildings sample_osm (building_query b) =
     (if b = ''Hall'' then Some [hall] else if b = ''Depot'' then Some [depot] else None)"
  by (simp add: sample_osm_def building_query_def)

lemma sample_query [simp]:
  "get_data_by_custom_criteria sample_osm (room_criteria ident) = sample_rooms ident"
  by (simp add: sample_osm_def room_criteria_def)

lemma framed_simps [simp]:
  "get_buildings framed_osm f = Some (rows_of (get_buildings sample_osm f))"
  "get_data_by_custom_criteria framed_osm c = Some (rows_of (get_data_by_custom_criteria sample_osm c))"
  by (simp_all add: framed_osm_def with_empty_frames_def)

lemma upper_samples [simp]:
  "upper ''a101'' = ''A101''" "upper ''b7'' = ''B7''" "upper ''c3'' = ''C3''"
  "upper ''m1'' = ''M1''" "upper ''z9'' = ''Z9''" "upper ''p1'' = ''P1''" "upper ''q1'' = ''Q1''"
  by code_simp+

lemma sample_geo_simps [simp]:
  "centroid sample_geo = sample_centroid"
  "geom_within sample_geo = box_within"
  "unary_union sample_geo [g] = g"
  by (simp_all add: sample_geo_def)

lemmas sample_defs =
  box_within_def area_centroid_def polygon_area_def polygon_moment_def ring_area_def
  ring_moment_def cross_def lo_def hi_def rect_def feature_def hall_def depot_def
  room_11_def room_12_def room_13_def room_14_def room_21_def room_31_def room_41_def
  room_51_def room_61_def sample_rooms_def

lemma sample_region [simp]:
  "building_geom_of sample_osm sample_geo ''Hall'' = geometry hall"
  "building_geom_of framed_osm sample_geo ''Hall'' = geometry hall"
  by (simp_all add: building_geom_of_def buildings_of_def rows_of_def)

lemma sample_join_a101:
  "rooms_in_building_of sample_osm sample_geo ''Hall'' ''a101'' =
     [add_centroid sample_geo room_12, add_centroid sample_geo room_13, add_centroid sample_geo room_14]"
  by (simp add: rooms_in_building_of_def rooms_of_def rows_of_def sjoin_within_def
      representative_def sample_defs)


lemma sample_join_single:
  "rooms_in_building_of sample_osm sample_geo ''Hall'' ''b7'' = [add_centroid sample_geo room_21]"
  "rooms_in_building_of sample_osm sample_geo ''Hall'' ''m1'' = [add_centroid sample_geo room_41]"
  "rooms_in_building_of sample_osm sample_geo ''Hall'' ''p1'' = [add_centroid sample_geo room_61]"
  "rooms_in_building_of sample_osm sample_geo ''Hall'' ''c3'' = []"
  "rooms_in_building_of sample_osm sample_geo ''Hall'' ''z9'' = []"
  by (simp_all add: rooms_in_building_of_def rooms_of_def rows_of_def sjoin_within_def
      representative_def sample_defs)

lemma sample_exact:
  "\<not> is_exact ''A101'' (format_row sample_geo (add_centroid sample_geo room_12))"
  "is_exact ''A101'' (format_row sample_geo (add_centroid sample_geo room_13))"
  "is_exact ''A101'' (format_row sample_geo (add_centroid sample_geo room_14))"
  "is_exact ''B7'' (format_row sample_geo (add_centroid sample_geo room_21))"
  "is_exact ''M1'' (format_row sample_geo (add_centroid sample_geo room_41))"
  "\<not> is_exact ''P1'' (format_row sample_geo (add_centroid sample_geo room_61))"
  by (simp_all add: is_exact_def format_row_def row_get_def sample_defs)

lemma sample_find_room:
  "find_room sample_osm sample_geo ''Hall'' ''a101'' =
     Returned (Inr (format_row sample_geo (add_centroid sample_geo room_13)))"
  "find_room sample_osm sample_geo ''Hall'' ''b7'' =
     Returned (Inr (format_row sample_geo (add_centroid sample_geo room_21)))"
  "find_room sample_osm sample_geo ''Hall'' ''m1'' =
     Returned (Inr (format_row sample_geo (add_centroid sample_geo room_41)))"
  by (simp_all add: find_room_unfold sample_join_a101 sample_join_single sample_exact sample_rooms_def)

lemma sample_failures:
  "find_room framed_osm sample_geo ''Hal'' ''q1'' =
     Returned (Inl (''Building '' @ [CHR 0x27] @ ''Hal'' @ [CHR 0x27] @ '' not found''))"
  "find_room framed_osm sample_geo ''Hall'' ''q1'' =
     Returned (Inl (''Room '' @ [CHR 0x27] @ ''Q1'' @ [CHR 0x27] @ '' not found in dataset''))"
  "find_room sample_osm sample_geo ''Hall'' ''z9'' =
     Returned (Inl (''Room '' @ [CHR 0x27] @ ''Z9'' @ [CHR 0x27] @ '' not found in Hall''))"
  "find_room sample_osm sample_geo ''Hall'' ''p1'' =
     Returned (Inl (''Exact match for '' @ [CHR 0x27] @ ''P1'' @ [CHR 0x27] @ '' not found''))"
  by (simp_all add: find_room_unfold rows_of_def sample_join_single sample_exact sample_rooms_def
      building_not_found_def room_not_in_dataset_def room_not_in_building_def
      exact_match_not_found_def quoted_def hall_def feature_def)

lemma sample_raises:
  "find_room sample_osm sample_geo ''Hal'' ''q1'' =
     Raised ([CHR 0x27] @ ''NoneType'' @ [CHR 0x27] @ '' object has no attribute '' @ [CHR 0x27] @ ''empty'' @ [CHR 0x27])"
  "find_room sample_osm sample_geo ''Hall'' ''q1'' =
     Raised ([CHR 0x27] @ ''NoneType'' @ [CHR 0x27] @ '' object has no attribute '' @ [CHR 0x27] @ ''empty'' @ [CHR 0x27])"
  by (simp_all add: find_room_unfold sample_rooms_def attribute_error_def quoted_def hall_def feature_def)

lemma sample_same_items:
  "same_items (JObj [(''building'', JStr ''Hall''), (''room'', JStr ''a101'')])
              (JObj [(''room'', JStr ''a101''), (''building'', JStr ''Hall'')])"
  by (rule same_items.objects) (auto intro: same_items.same)

lemma sample_dumps:
  "dumps sample_python (JObj [(''room'', JStr ''a101''), (''building'', JStr ''Hall'')]) =
     ''{'' @ [CHR 0x22] @ ''building'' @ [CHR 0x22] @ '': '' @ [CHR 0x22] @ ''Hall'' @ [CHR 0x22] @ '', ''
         @ [CHR 0x22] @ ''room'' @ [CHR 0x22] @ '': '' @ [CHR 0x22] @ ''a101'' @ [CHR 0x22] @ ''}''"
  by (simp add: sample_python_def join_def)

lemma sample_responses:
  "find_room sample_osm sample_geo ''Hall'' ''z9'' =
     Returned (Inl (''Room '' @ [CHR 0x27] @ ''Z9'' @ [CHR 0x27] @ '' not found in Hall''))"
  "find_room sample_osm sample_geo ''Hall'' ''a101'' =
     Returned (Inr (format_row sample_geo (add_centroid sample_geo room_13)))"
  by (rule sample_failures(3), rule sample_find_room(1))

lemma sample_listing:
  "handle_rooms sample_osm =
     Returned \<lparr>status = 200,
               body = ListBody [\<lparr>entry_osm_id = CInt 1, entry_name = CStr ''Hall''\<rparr>,
                                \<lparr>entry_osm_id = CNone, entry_name = CStr ''Depot''\<rparr>]\<rparr>"
  by (simp add: handle_rooms_frame [where rows = "[hall, depot]"] sample_osm_def row_get_def
      hall_def depot_def feature_def)

section \<open>The claims\<close>

text \<open>
  Claim C1. A room match returned by \<open>find_room\<close> is built from one of the candidate
  rows and carries that row's identifier. Its node list is empty when the feature is a
  point, the exterior ring when it is a polygon, and the exterior rings of the parts, one
  after the other in part order, when it is a multipolygon; each coordinate \<open>(x, y)\<close> of
  a ring is the node with latitude \<open>y\<close> and longitude \<open>x\<close>. Interior rings do not occur.
\<close>

theorem room_match_nodes:
  assumes "find_room osm geo b r = Returned (Inr m)"
  shows "\<exists>x \<in> set (rooms_of osm r).
           m = format_row geo (add_centroid geo x) \<and>
           osm_id m = row_id x \<and>
           nodes m =
             (case geometry x of
                Point c \<Rightarrow> []
              | Polygon p \<Rightarrow> map (\<lambda>c. \<lparr>node_latitude = snd c, node_longitude = fst c\<rparr>) (exterior p)
              | MultiPolygon ps \<Rightarrow> concat (map (\<lambda>p. map (\<lambda>c. \<lparr>node_latitude = snd c, node_longitude = fst c\<rparr>) (exterior p)) ps)
              | _ \<Rightarrow> [])"
proof -
  from find_room_Inr_D [OF assms] obtain pre y post
    where J: "rooms_in_building_of osm geo b r = pre @ y # post" and m: "m = format_row geo y"
    by blast
  from J have "y \<in> set (rooms_in_building_of osm geo b r)" by simp
  then obtain x where x: "x \<in> set (rooms_of osm r)" and y: "y = add_centroid geo x"
    by (auto simp: rooms_in_building_of_def sjoin_within_def)
  have "nodes m = map (\<lambda>c. \<lparr>node_latitude = snd c, node_longitude = fst c\<rparr>) (room_nodes (geometry x))"
    by (simp add: m y format_row_def to_node_def [abs_def])
  then have "nodes m =
      (case geometry x of
         Point c \<Rightarrow> []
       | Polygon p \<Rightarrow> map (\<lambda>c. \<lparr>node_latitude = snd c, node_longitude = fst c\<rparr>) (exterior p)
       | MultiPolygon ps \<Rightarrow> concat (map (\<lambda>p. map (\<lambda>c. \<lparr>node_latitude = snd c, node_longitude = fst c\<rparr>) (exterior p)) ps)
       | _ \<Rightarrow> [])"
    by (cases "geometry x") (simp_all add: room_nodes_cases map_concat comp_def)
  moreover have "osm_id m = row_id x"
    by (simp add: m y format_row_def)
  ultimately show ?thesis using x m y by blast
qed

theorem room_match_nodes_witness:
  "find_room sample_osm sample_geo ''Hall'' ''b7'' =
     Returned (Inr (format_row sample_geo (add_centroid sample_geo room_21)))
   \<and> geometry room_21 = Point (5, 6)
   \<and> nodes (format_row sample_geo (add_centroid sample_geo room_21)) = []
   \<and> find_room sample_osm sample_geo ''Hall'' ''a101'' =
       Returned (Inr (format_row sample_geo (add_centroid sample_geo room_13)))
   \<and> geometry room_13 =
       Polygon \<lparr>exterior = [(4, 5), (8, 5), (8, 7), (4, 7), (4, 5)],
                interiors = [[(5, 11/2), (6, 11/2), (6, 13/2), (5, 13/2), (5, 11/2)]]\<rparr>
   \<and> osm_id (format_row sample_geo (add_centroid sample_geo room_13)) = 13
   \<and> nodes (format_row sample_geo (add_centroid sample_geo room_13)) =
       [\<lparr>node_latitude = 5, node_longitude = 4\<rparr>, \<lparr>node_latitude = 5, node_longitude = 8\<rparr>,
        \<lparr>node_latitude = 7, node_longitude = 8\<rparr>, \<lparr>node_latitude = 7, node_longitude = 4\<rparr>,
        \<lparr>node_latitude = 5, node_longitude = 4\<rparr>]
   \<and> find_room sample_osm sample_geo ''Hall'' ''m1'' =
       Returned (Inr (format_row sample_geo (add_centroid sample_geo room_41)))
   \<and> geometry room_41 =
       MultiPolygon
         [\<lparr>exterior = [(1, 1), (3, 1), (3, 2), (1, 2), (1, 1)],
           interiors = [[(2, 5/4), (5/2, 5/4), (5/2, 7/4), (2, 7/4), (2, 5/4)]]\<rparr>,
          \<lparr>exterior = [(3, 3), (5, 3), (5, 4), (3, 4), (3, 3)], interiors = []\<rparr>]
   \<and> nodes (format_row sample_geo (add_centroid sample_geo room_41)) =
       [\<lparr>node_latitude = 1, node_longitude = 1\<rparr>, \<lparr>node_latitude = 1, node_longitude = 3\<rparr>,
        \<lparr>node_latitude = 2, node_longitude = 3\<rparr>, \<lparr>node_latitude = 2, node_longitude = 1\<rparr>,
        \<lparr>node_latitude = 1, node_longitude = 1\<rparr>, \<lparr>node_latitude = 3, node_longitude = 3\<rparr>,
        \<lparr>node_latitude = 3, node_longitude = 5\<rparr>, \<lparr>node_latitude = 4, node_longitude = 5\<rparr>,
        \<lparr>node_latitude = 4, node_longitude = 3\<rparr>, \<lparr>node_latitude = 3, node_longitude = 3\<rparr>]"
proof -
  have a: "nodes (format_row sample_geo (add_centroid sample_geo room_21)) = []"
    using room_match_nodes [OF sample_find_room(2)]
    by (auto simp: rooms_of_def rows_of_def sample_rooms_def) (simp add: room_21_def feature_def)
  have b: "nodes (format_row sample_geo (add_centroid sample_geo room_41)) =
       [\<lparr>node_latitude = 1, node_longitude = 1\<rparr>, \<lparr>node_latitude = 1, node_longitude = 3\<rparr>,
        \<lparr>node_latitude = 2, node_longitude = 3\<rparr>, \<lparr>node_latitude = 2, node_longitude = 1\<rparr>,
        \<lparr>node_latitude = 1, node_longitude = 1\<rparr>, \<lparr>node_latitude = 3, node_longitude = 3\<rparr>,
        \<lparr>node_latitude = 3, node_longitude = 5\<rparr>, \<lparr>node_latitude = 4, node_longitude = 5\<rparr>,
        \<lparr>node_latitude = 4, node_longitude = 3\<rparr>, \<lparr>node_latitude = 3, node_longitude = 3\<rparr>]"
    using room_match_nodes [OF sample_find_room(3)]
    by (auto simp: rooms_of_def rows_of_def sample_rooms_def) (simp add: room_41_def feature_def rect_def)
  have c: "nodes (format_row sample_geo (add_centroid sample_geo room_13)) =
       [\<lparr>node_latitude = 5, node_longitude = 4\<rparr>, \<lparr>node_latitude = 5, node_longitude = 8\<rparr>,
        \<lparr>node_latitude = 7, node_longitude = 8\<rparr>, \<lparr>node_latitude = 7, node_longitude = 4\<rparr>,
        \<lparr>node_latitude = 5, node_longitude = 4\<rparr>]"
    using room_match_nodes [OF sample_find_room(1)]
    by (auto simp: rooms_of_def rows_of_def sample_rooms_def format_row_def
          room_11_def room_12_def room_13_def room_14_def feature_def rect_def)
  have d: "osm_id (format_row sample_geo (add_centroid sample_geo room_13)) = 13"
    by (simp add: format_row_def room_13_def feature_def)
  from a b c d sample_find_room show ?thesis
    by (simp add: room_21_def room_13_def room_41_def feature_def rect_def)
qed

text \<open>
  Claim C2. A room match returned by \<open>find_room\<close> carries a \<open>ref\<close> tag or a \<open>name\<close>
  tag whose text is exactly the upper-cased room identifier; the tag is present (its
  value is not one of the markers of a missing value).
\<close>

theorem exact_tag_match:
  assumes "find_room osm geo b r = Returned (Inr m)"
  shows "(py_str (ref (tags m)) = upper r \<and> ref (tags m) \<noteq> CNone \<and> ref (tags m) \<noteq> CNaN)
       \<or> (py_str (name (tags m)) = upper r \<and> name (tags m) \<noteq> CNone \<and> name (tags m) \<noteq> CNaN)"
proof -
  from find_room_Inr_D [OF assms] have "is_exact (upper r) m" by blast
  then show ?thesis
    using py_str_upper_present by (auto simp: is_exact_def)
qed

theorem exact_tag_match_witness:
  "find_room sample_osm sample_geo ''Hall'' ''a101'' =
     Returned (Inr (format_row sample_geo (add_centroid sample_geo room_13)))
   \<and> ref (tags (format_row sample_geo (add_centroid sample_geo room_13))) = CStr ''A101''
   \<and> name (tags (format_row sample_geo (add_centroid sample_geo room_13))) = CNaN
   \<and> ref (tags (format_row sample_geo (add_centroid sample_geo room_12))) = CStr ''A101B''"
  using exact_tag_match [OF sample_find_room(1)] sample_find_room(1)
  by (simp add: format_row_def row_get_def room_13_def room_12_def feature_def)

text \<open>
  Claim C3, as the code has it. The geometry that the containment test is run on is the
  candidate's own geometry when that is a point, and also for every other type but two:
  it is the point at the centroid exactly when the geometry is a polygon or a
  multipolygon. The join keeps the candidates for which that geometry is within the
  building.
\<close>

theorem representative_by_type:
  "(geometry x = Point c \<longrightarrow> centroid_col (add_centroid geo x) = Point c)
   \<and> (geom_type (geometry x) = ''Polygon'' \<or> geom_type (geometry x) = ''MultiPolygon'' \<longrightarrow>
        centroid_col (add_centroid geo x) = Point (centroid geo (geometry x)))
   \<and> (geom_type (geometry x) \<noteq> ''Polygon'' \<and> geom_type (geometry x) \<noteq> ''MultiPolygon'' \<longrightarrow>
        centroid_col (add_centroid geo x) = geometry x)
   \<and> rooms_in_building_of osm geo b r =
        filter (\<lambda>y. geom_within geo (centroid_col y) (building_geom_of osm geo b))
          (map (add_centroid geo) (rooms_of osm r))"
  by (auto simp: representative_def rooms_in_building_of_def sjoin_within_def)

theorem representative_by_type_witness:
  "centroid_col (add_centroid sample_geo room_21) = Point (5, 6)
   \<and> centroid_col (add_centroid sample_geo room_13) = Point (85/14, 6)
   \<and> centroid_col (add_centroid sample_geo room_41) = Point (61/20, 77/30)
   \<and> centroid_col (add_centroid sample_geo room_31) = LineString [(2, 2), (14, 2)]
   \<and> rooms_in_building_of sample_osm sample_geo ''Hall'' ''c3'' = []"
  using representative_by_type [of room_21 "(5, 6)" sample_geo sample_osm "''Hall''" "''c3''"]
    representative_by_type [of room_13 "(0, 0)" sample_geo sample_osm "''Hall''" "''c3''"]
    representative_by_type [of room_41 "(0, 0)" sample_geo sample_osm "''Hall''" "''c3''"]
    representative_by_type [of room_31 "(0, 0)" sample_geo sample_osm "''Hall''" "''c3''"]
  by (simp add: rooms_of_def rows_of_def sample_defs)

text \<open>
  The claim as stated, the centroid for every geometry that is not a point, fails on a
  line: the segment from \<open>(2, 2)\<close> to \<open>(14, 2)\<close> has its centroid \<open>(8, 2)\<close> inside the
  hall, but the test is run on the segment, which leaves the hall, and the room is not
  found there.
\<close>

theorem centroid_of_line_counterexample:
  "geometry room_31 = LineString [(2, 2), (14, 2)]
   \<and> centroid sample_geo (geometry room_31) = (8, 2)
   \<and> centroid_col (add_centroid sample_geo room_31) \<noteq> Point (centroid sample_geo (geometry room_31))
   \<and> geom_within sample_geo (Point (centroid sample_geo (geometry room_31)))
        (building_geom_of sample_osm sample_geo ''Hall'')
   \<and> rooms_of sample_osm ''c3'' = [room_31]
   \<and> find_room sample_osm sample_geo ''Hall'' ''c3'' =
        Returned (Inl (''Room '' @ [CHR 0x27] @ ''C3'' @ [CHR 0x27] @ '' not found in Hall''))"
  by (simp add: find_room_unfold rooms_of_def rows_of_def sample_join_single representative_def
      room_not_in_building_def quoted_def sample_defs)

text \<open>
  Claim C4 says that \<open>find_room\<close> fails with the message naming the building when the
  building query finds nothing, and else with the message naming the room when the
  candidate query finds nothing in the extract. The data source answers \<open>None\<close> to a
  query that finds nothing, and \<open>find_room\<close> raises where it reads \<open>.empty\<close> from
  that: for the building name \<open>Hal\<close>, which no building has, and for the room \<open>q1\<close>
  of the hall, which the extract does not have, neither message is returned and the
  handler answers 500.
\<close>

theorem find_room_raises_on_none:
  "get_buildings sample_osm [(''name'', [''Hal''])] = None
   \<and> find_room sample_osm sample_geo ''Hal'' ''q1'' = Raised ([CHR 0x27] @ ''NoneType'' @ [CHR 0x27] @ '' object has no attribute '' @ [CHR 0x27] @ ''empty'' @ [CHR 0x27])
   \<and> handle_find_room sample_python sample_osm sample_geo
        (posted (Returned (JObj [(''building'', JStr ''Hal''), (''room'', JStr ''q1'')]))) =
      \<lparr>status = 500, body = ErrorBody (''Server error: '' @ [CHR 0x27] @ ''NoneType'' @ [CHR 0x27] @ '' object has no attribute '' @ [CHR 0x27] @ ''empty'' @ [CHR 0x27])\<rparr>
   \<and> get_buildings sample_osm [(''name'', [''Hall''])] = Some [hall]
   \<and> get_data_by_custom_criteria sample_osm
        \<lparr>custom_filter = [(''indoor'', [''room'']), (''ref'', [''Q1'']), (''name'', [''Q1''])],
         extra_attributes = Some [''level''], filter_type = ''keep'',
         keep_nodes = True, keep_ways = True\<rparr> = None
   \<and> find_room sample_osm sample_geo ''Hall'' ''q1'' = Raised ([CHR 0x27] @ ''NoneType'' @ [CHR 0x27] @ '' object has no attribute '' @ [CHR 0x27] @ ''empty'' @ [CHR 0x27])
   \<and> handle_find_room sample_python sample_osm sample_geo
        (posted (Returned (JObj [(''building'', JStr ''Hall''), (''room'', JStr ''q1'')]))) =
      \<lparr>status = 500, body = ErrorBody (''Server error: '' @ [CHR 0x27] @ ''NoneType'' @ [CHR 0x27] @ '' object has no attribute '' @ [CHR 0x27] @ ''empty'' @ [CHR 0x27])\<rparr>"
proof -
  have a: "handle_find_room sample_python sample_osm sample_geo
        (posted (Returned (JObj [(''building'', JStr ''Hal''), (''room'', JStr ''q1'')]))) =
      \<lparr>status = 500, body = ErrorBody (''Server error: '' @ [CHR 0x27] @ ''NoneType'' @ [CHR 0x27] @ '' object has no attribute '' @ [CHR 0x27] @ ''empty'' @ [CHR 0x27])\<rparr>"
    by (simp add: handle_find_room_found [where bv = "JStr ''Hal''" and rv = "JStr ''q1''"]
        posted_def find_room_call_def sample_raises)
  have b: "handle_find_room sample_python sample_osm sample_geo
        (posted (Returned (JObj [(''building'', JStr ''Hall''), (''room'', JStr ''q1'')]))) =
      \<lparr>status = 500, body = ErrorBody (''Server error: '' @ [CHR 0x27] @ ''NoneType'' @ [CHR 0x27] @ '' object has no attribute '' @ [CHR 0x27] @ ''empty'' @ [CHR 0x27])\<rparr>"
    by (simp add: handle_find_room_found [where bv = "JStr ''Hall''" and rv = "JStr ''q1''"]
        posted_def find_room_call_def sample_raises)
  from a b sample_raises show ?thesis
    by (simp add: sample_osm_def sample_rooms_def)
qed

text \<open>
  Claim C5 says that every request whose body lacks the key \<open>building\<close> or the key
  \<open>room\<close> is answered 400 with the message \<open>Missing required parameters\<close>. The body
  \<open>5\<close> lacks both, and the handler's test for them raises on it: the answer is 500, and
  on an empty cache that is what the route serves. The array of the two key names passes
  the test and the subscription raises: 500 as well.
\<close>

theorem find_room_route_number_body:
  "get_json (posted (Returned (JInt 5))) = Returned (JInt 5)
   \<and> handle_find_room sample_python sample_osm sample_geo (posted (Returned (JInt 5))) =
       \<lparr>status = 500,
        body = ErrorBody (''Server error: argument of type '' @ [CHR 0x27] @ ''int'' @ [CHR 0x27] @ '' is not iterable'')\<rparr>
   \<and> fst (find_room_route sample_python sample_osm sample_geo (posted (Returned (JInt 5))) Map.empty) =
       Returned \<lparr>status = 500,
        body = ErrorBody (''Server error: argument of type '' @ [CHR 0x27] @ ''int'' @ [CHR 0x27] @ '' is not iterable'')\<rparr>
   \<and> handle_find_room sample_python sample_osm sample_geo
        (posted (Returned (JArr [JStr ''building'', JStr ''room'']))) =
       \<lparr>status = 500, body = ErrorBody ''Server error: list indices must be integers or slices, not str''\<rparr>"
  by (simp add: find_room_route_def cached_def handle_find_room_def handle_find_room_try_def
      missing_parameters_def posted_def sample_python_def quoted_def)

text \<open>
  Claim C6. \<open>find_room\<close> gives the same result for a room identifier and for its
  upper-cased form; so \<open>a101\<close> and \<open>A101\<close> resolve alike.
\<close>

theorem room_identifier_case_insensitive:
  "find_room osm geo b (upper r) = find_room osm geo b r
   \<and> find_room osm geo b ''a101'' = find_room osm geo b ''A101''"
proof -
  have "find_room osm geo b (upper r) = find_room osm geo b r" for r
    by (simp add: find_room_unfold rooms_of_def rooms_in_building_of_def
        split: option.split list.split)
  from this [of r] this [of "''a101''"] show ?thesis by simp
qed

text \<open>
  Claim C7, as the code has it. The cache key is the request path alone when
  \<open>get_json\<close> raises, and also when the parsed body is falsy: \<open>null\<close>, \<open>false\<close>, zero, or
  an empty text, array or object. For every other body it is the path, a colon and the
  digest of the body written with sorted keys. Two bodies that hold the same key/value
  pairs, in whatever key order, get the same key under the same path.
\<close>

theorem cache_key_of_body:
  "(get_json req = Raised e \<longrightarrow> make_request_body_cache_key py req = path req)
   \<and> (get_json req = Returned d \<and> \<not> truthy d \<longrightarrow> make_request_body_cache_key py req = path req)
   \<and> (get_json req = Returned d \<and> truthy d \<longrightarrow>
        make_request_body_cache_key py req = path req @ '':'' @ md5_hexdigest py (dumps py d))
   \<and> (same_items a b \<longrightarrow>
        make_request_body_cache_key py \<lparr>path = p, get_json = Returned a\<rparr> =
        make_request_body_cache_key py \<lparr>path = p, get_json = Returned b\<rparr>)"
  using same_items_truthy [of a b] same_items_dumps [of a b py]
  by (simp add: make_key_cases)

theorem cache_key_of_body_witness:
  "make_request_body_cache_key sample_python (posted (Raised ''400 Bad Request'')) = ''/v1/find-room''
   \<and> make_request_body_cache_key sample_python (posted (Returned JNull)) = ''/v1/find-room''
   \<and> make_request_body_cache_key sample_python (posted (Returned (JObj [(''room'', JStr ''a101''), (''building'', JStr ''Hall'')]))) =
       ''/v1/find-room:'' @ md5_hexdigest sample_python
          (dumps sample_python (JObj [(''room'', JStr ''a101''), (''building'', JStr ''Hall'')]))
   \<and> make_request_body_cache_key sample_python (posted (Returned (JObj [(''building'', JStr ''Hall''), (''room'', JStr ''a101'')]))) =
       make_request_body_cache_key sample_python (posted (Returned (JObj [(''room'', JStr ''a101''), (''building'', JStr ''Hall'')])))"
  using
    cache_key_of_body [where req = "posted (Raised ''400 Bad Request'')" and e = "''400 Bad Request''"
       and d = JNull and py = sample_python and p = "''/v1/find-room''"
       and a = "JObj [(''building'', JStr ''Hall''), (''room'', JStr ''a101'')]"
       and b = "JObj [(''room'', JStr ''a101''), (''building'', JStr ''Hall'')]"]
    cache_key_of_body [where req = "posted (Returned JNull)" and e = "[]" and d = JNull
       and py = sample_python and p = "[]" and a = JNull and b = JNull]
    cache_key_of_body [where req = "posted (Returned (JObj [(''room'', JStr ''a101''), (''building'', JStr ''Hall'')]))"
       and e = "[]" and d = "JObj [(''room'', JStr ''a101''), (''building'', JStr ''Hall'')]"
       and py = sample_python and p = "[]" and a = JNull and b = JNull]
    sample_same_items
  by (simp add: posted_def)

text \<open>
  The claim as stated, that every body that is present and parses gets the path joined to
  a digest, fails on the empty object: its key is the path alone.
\<close>

theorem cache_key_of_empty_object_counterexample:
  "get_json (posted (Returned (JObj []))) = Returned (JObj [])
   \<and> make_request_body_cache_key sample_python (posted (Returned (JObj []))) = ''/v1/find-room''
   \<and> make_request_body_cache_key sample_python (posted (Returned (JObj []))) \<noteq>
       path (posted (Returned (JObj []))) @ '':'' @ md5_hexdigest sample_python (dumps sample_python (JObj []))"
  by (simp add: make_key_cases posted_def)

text \<open>
  Claim C8. When the building query has rows and the joined rows are \<open>pre @ x # post\<close>, with
  \<open>x\<close> an exact match and no exact match in \<open>pre\<close>, then \<open>find_room\<close> returns the
  match built from \<open>x\<close>, whatever \<open>post\<close> holds: the first exact match in the order of
  the join wins, and no other key, such as the level, is looked at.
\<close>

theorem first_match_wins:
  assumes "buildings_of osm b \<noteq> []"
    and "rooms_in_building_of osm geo b r = pre @ x # post"
    and "\<forall>y \<in> set pre. \<not> is_exact (upper r) (format_row geo y)"
    and "is_exact (upper r) (format_row geo x)"
  shows "find_room osm geo b r = Returned (Inr (format_row geo x))"
proof -
  have "rooms_of osm r \<noteq> []"
    using assms(2) by (auto simp: rooms_in_building_of_def sjoin_within_def)
  moreover have "filter (is_exact (upper r)) (map (format_row geo) pre) = []"
    using assms(3) by (simp add: filter_empty_conv)
  ultimately show ?thesis
    using assms(1,2,4)
    by (auto simp: find_room_unfold buildings_of_def rooms_of_def rows_of_def split: option.splits)
qed

theorem first_match_wins_witness:
  "find_room sample_osm sample_geo ''Hall'' ''a101'' =
     Returned (Inr (format_row sample_geo (add_centroid sample_geo room_13)))
   \<and> rooms_in_building_of sample_osm sample_geo ''Hall'' ''a101'' =
       [add_centroid sample_geo room_12, add_centroid sample_geo room_13, add_centroid sample_geo room_14]
   \<and> is_exact ''A101'' (format_row sample_geo (add_centroid sample_geo room_14))
   \<and> level (tags (format_row sample_geo (add_centroid sample_geo room_13))) = CStr ''2''
   \<and> level (tags (format_row sample_geo (add_centroid sample_geo room_14))) = CStr ''1''"
  using first_match_wins [of sample_osm "''Hall''" sample_geo "''a101''"
      "[add_centroid sample_geo room_12]" "add_centroid sample_geo room_13" "[add_centroid sample_geo room_14]"]
    sample_join_a101 sample_exact
  by (simp add: buildings_of_def rows_of_def format_row_def row_get_def room_13_def room_14_def feature_def)

text \<open>
  Claim C9 says that \<open>/v1/rooms\<close> answers 200 with the empty list when no record is
  tagged \<open>building = university\<close>. The data source answers \<open>None\<close> to that query, the
  view raises where it iterates over the rows, nothing catches the exception, and the
  client gets status 500.
\<close>

theorem rooms_route_without_university:
  "university_criteria =
      \<lparr>custom_filter = [(''building'', [''university''])], extra_attributes = None,
       filter_type = ''keep'', keep_nodes = True, keep_ways = True\<rparr>
   \<and> get_data_by_custom_criteria no_university_osm university_criteria = None
   \<and> handle_rooms no_university_osm = Raised ([CHR 0x27] @ ''NoneType'' @ [CHR 0x27] @ '' object has no attribute '' @ [CHR 0x27] @ ''iterrows'' @ [CHR 0x27])
   \<and> fst (rooms_route no_university_osm ''/v1/rooms'' Map.empty) = Raised ([CHR 0x27] @ ''NoneType'' @ [CHR 0x27] @ '' object has no attribute '' @ [CHR 0x27] @ ''iterrows'' @ [CHR 0x27])
   \<and> served (fst (rooms_route no_university_osm ''/v1/rooms'' Map.empty)) =
       \<lparr>status = 500, body = InternalServerError\<rparr>"
  by (simp add: rooms_route_def cached_def served_def handle_rooms_def university_criteria_def
      no_university_osm_def attribute_error_def quoted_def)

text \<open>
  Claim C10. Every failure message of \<open>find_room\<close> is one of four texts. The three
  about the room hold the upper-cased identifier, the one about the building holds the
  building name as given.
\<close>

theorem failure_messages:
  assumes "find_room osm geo b r = Returned (Inl msg)"
  shows "msg = ''Building '' @ [CHR 0x27] @ b @ [CHR 0x27] @ '' not found''
       \<or> msg = ''Room '' @ [CHR 0x27] @ upper r @ [CHR 0x27] @ '' not found in dataset''
       \<or> msg = ''Room '' @ [CHR 0x27] @ upper r @ [CHR 0x27] @ '' not found in '' @ b
       \<or> msg = ''Exact match for '' @ [CHR 0x27] @ upper r @ [CHR 0x27] @ '' not found''"
  using assms
  by (auto simp: find_room_unfold building_not_found_def room_not_in_dataset_def
      room_not_in_building_def exact_match_not_found_def quoted_def
      split: option.splits if_splits list.splits)

theorem failure_messages_witness:
  "find_room framed_osm sample_geo ''Hal'' ''q1'' =
      Returned (Inl (''Building '' @ [CHR 0x27] @ ''Hal'' @ [CHR 0x27] @ '' not found''))
   \<and> find_room framed_osm sample_geo ''Hall'' ''q1'' =
      Returned (Inl (''Room '' @ [CHR 0x27] @ ''Q1'' @ [CHR 0x27] @ '' not found in dataset''))
   \<and> find_room sample_osm sample_geo ''Hall'' ''z9'' =
      Returned (Inl (''Room '' @ [CHR 0x27] @ ''Z9'' @ [CHR 0x27] @ '' not found in Hall''))
   \<and> find_room sample_osm sample_geo ''Hall'' ''p1'' =
      Returned (Inl (''Exact match for '' @ [CHR 0x27] @ ''P1'' @ [CHR 0x27] @ '' not found''))"
  using failure_messages [OF sample_failures(1)] failure_messages [OF sample_failures(2)]
    failure_messages [OF sample_failures(3)] failure_messages [OF sample_failures(4)] sample_failures
  by simp

end
